theory Spec2Isabelle
  imports Main "HOL-Library.Sublist"
begin

section \<open>The common-templates operand of the SSP operator\<close>

text \<open>
  A shallow embedding of \<^verbatim>\<open>internal/operands/common-templates/reconcile.go\<close>.
  The Go code works against a cluster client, two package-level variables
  (\<^verbatim>\<open>loadTemplatesOnce\<close>, \<^verbatim>\<open>templatesBundle\<close>) and a handful of constants and
  constructors declared in other files of the package. The cluster and the two
  package variables are the explicit state \<open>world\<close>; the constants and constructors
  that are declared elsewhere are the fields of the record \<open>env\<close>. The context and
  the logger of a request have no part in what the functions return and are left out.
\<close>

subsection \<open>Errors and panics\<close>

text \<open>
  \<^verbatim>\<open>errors.IsNotFound(err)\<close> is the only question the code asks about an error,
  so an error is either the absence error or some other failure.
\<close>

datatype error = NotFound | Failure string

definition IsNotFound :: "error \<Rightarrow> bool" where
  "IsNotFound err = (err = NotFound)"

text \<open>A Go \<^verbatim>\<open>panic\<close> carries an error value or a message; a call either returns or panics.\<close>

datatype panic_value = PanicError error | PanicMessage string

datatype 'a outcome = Return 'a | Panic panic_value

subsection \<open>Cluster objects\<close>

text \<open>
  The five kinds the operand watches. One record carries the metadata every kind has
  and the kind-specific fields the update functions of this file copy: \<open>Rules\<close> of a
  role or cluster role, \<open>Subjects\<close> and \<open>RoleRef\<close> of a role binding, \<open>Objects\<close> and
  \<open>Parameters\<close> of a template. A Go map that is \<^verbatim>\<open>nil\<close> reads like an empty one
  (the source only guards the write), so both are the empty map here.
\<close>

datatype kind = KNamespace | KRole | KRoleBinding | KClusterRole | KTemplate

record object =
  Kind :: kind
  Namespace :: string
  Name :: string
  Labels :: "string \<rightharpoonup> string"
  Annotations :: "string \<rightharpoonup> string"
  Rules :: "string list"
  Subjects :: "string list"
  RoleRef :: string
  Objects :: "string list"
  Parameters :: "string list"

type_synonym key = "kind \<times> string \<times> string"

definition key_of :: "object \<Rightarrow> key" where
  "key_of obj = (Kind obj, Namespace obj, Name obj)"

subsection \<open>The world: cluster store, its faults, and the package variables\<close>

text \<open>
  Every call the code makes on the client or on the bundle reader is appended to
  \<open>calls\<close>, so that "is attempted once" and "performs no write" are statements about
  the log. A client call can fail for reasons outside the program: the four fault
  fields say which error, if any, the cluster answers with.
\<close>

datatype call =
    CallList string
  | CallGet key
  | CallCreate key
  | CallUpdate key
  | CallDelete key
  | CallReadTemplates string

record world =
  store :: "object list"
  calls :: "call list"
  list_fault :: "error option"
  get_fault :: "key \<Rightarrow> error option"
  write_fault :: "key \<Rightarrow> error option"
  delete_fault :: "key \<Rightarrow> error option"
  loadTemplatesOnce :: bool
  templatesBundle :: "object list"

record request =
  CommonTemplates_Namespace :: string

subsection \<open>Label selectors (\<^verbatim>\<open>k8s.io/apimachinery/pkg/labels\<close>)\<close>

datatype operator = Equals | NotEquals

datatype requirement = Requirement string operator "string list"

text \<open>
  \<open>Equals\<close> needs the key to be present with the value; \<open>NotEquals\<close> is also satisfied
  by an object that does not carry the key at all.
\<close>

fun Matches :: "requirement \<Rightarrow> (string \<rightharpoonup> string) \<Rightarrow> bool" where
  "Matches (Requirement k Equals vs) ls =
     (case ls k of None \<Rightarrow> False | Some v \<Rightarrow> v \<in> set vs)"
| "Matches (Requirement k NotEquals vs) ls =
     (case ls k of None \<Rightarrow> True | Some v \<Rightarrow> v \<notin> set vs)"

definition selector_Matches :: "requirement list \<Rightarrow> (string \<rightharpoonup> string) \<Rightarrow> bool" where
  "selector_Matches sel ls = list_all (\<lambda>r. Matches r ls) sel"

subsection \<open>What is declared outside this file\<close>

text \<open>
  The label and annotation names, the version, the bundle directory, the object
  constructors, the bundle reader and the validity checks of
  \<^verbatim>\<open>labels.NewRequirement\<close> are not in the source at hand. They are parameters.
  \<open>ReadTemplates\<close> returns both results of the Go function: the list and the error.
  \<open>AppLabels\<close> is the managed label set that \<^verbatim>\<open>WithAppLabels(name, component)\<close>
  stands for.
\<close>

record env =
  TemplateTypeLabel :: string
  TemplateVersionLabel :: string
  TemplateOsLabelPrefix :: string
  TemplateFlavorLabelPrefix :: string
  TemplateWorkloadLabelPrefix :: string
  TemplateDeprecatedAnnotation :: string
  Version :: string
  BundleDir :: string
  GoldenImagesNSname :: string
  AppComponentTemplating :: string
  validLabelKey :: "string \<Rightarrow> bool"
  validLabelValue :: "string \<Rightarrow> bool"
  ReadTemplates :: "string \<Rightarrow> object list \<times> error option"
  newGoldenImagesNS :: "string \<Rightarrow> object"
  newViewRole :: "string \<Rightarrow> object"
  newViewRoleBinding :: "string \<Rightarrow> object"
  newEditRole :: object
  AppLabels :: "string \<Rightarrow> string \<Rightarrow> (string \<rightharpoonup> string)"

definition operandName :: string where
  "operandName = ''common-templates''"

definition operandComponent :: "env \<Rightarrow> string" where
  "operandComponent env = AppComponentTemplating env"

text \<open>
  \<^verbatim>\<open>labels.NewRequirement\<close> for the two operators used: it rejects an invalid key, a
  value list that is not a single value, and an invalid value.
\<close>

definition NewRequirement ::
  "env \<Rightarrow> string \<Rightarrow> operator \<Rightarrow> string list \<Rightarrow> requirement option" where
  "NewRequirement env k opr vals =
     (if validLabelKey env k \<and> length vals = 1 \<and> list_all (validLabelValue env) vals
      then Some (Requirement k opr vals) else None)"

subsection \<open>The client\<close>

text \<open>
  The client is the cluster API as the code uses it. The store is the list of the
  objects of the cluster; a well-formed cluster has one object per key. A call first
  answers with the fault set for it, if any. Otherwise: get finds the object by its
  key or answers with the absence error; create refuses a key that exists; update
  replaces the object of that key and answers with the absence error when there is
  none; delete removes it and answers with the absence error when there is none.

  \<open>client_List\<close> is the call of the source: a template list, scoped to a namespace
  and filtered by a label selector. On an error the result list stays empty. The
  namespace is taken to be the name of a namespace; what the client does with an empty
  name is not modelled.
\<close>

definition client_List ::
  "string \<Rightarrow> requirement list \<Rightarrow> world \<Rightarrow> (object list \<times> error option) \<times> world" where
  "client_List ns sel w =
     (let w' = w\<lparr>calls := calls w @ [CallList ns]\<rparr> in
      case list_fault w of
        Some err \<Rightarrow> (([], Some err), w')
      | None \<Rightarrow>
          ((filter (\<lambda>obj. Kind obj = KTemplate \<and> Namespace obj = ns
                         \<and> selector_Matches sel (Labels obj)) (store w), None), w'))"

definition client_Get :: "key \<Rightarrow> world \<Rightarrow> (error + object) \<times> world" where
  "client_Get k w =
     (let w' = w\<lparr>calls := calls w @ [CallGet k]\<rparr> in
      case get_fault w k of
        Some err \<Rightarrow> (Inl err, w')
      | None \<Rightarrow>
          (case List.find (\<lambda>obj. key_of obj = k) (store w) of
             None \<Rightarrow> (Inl NotFound, w')
           | Some obj \<Rightarrow> (Inr obj, w')))"

definition client_Create :: "object \<Rightarrow> world \<Rightarrow> error option \<times> world" where
  "client_Create obj w =
     (let w' = w\<lparr>calls := calls w @ [CallCreate (key_of obj)]\<rparr> in
      case write_fault w (key_of obj) of
        Some err \<Rightarrow> (Some err, w')
      | None \<Rightarrow>
          if key_of obj \<in> set (map key_of (store w))
          then (Some (Failure ''already exists''), w')
          else (None, w'\<lparr>store := store w @ [obj]\<rparr>))"

definition client_Update :: "object \<Rightarrow> world \<Rightarrow> error option \<times> world" where
  "client_Update obj w =
     (let w' = w\<lparr>calls := calls w @ [CallUpdate (key_of obj)]\<rparr> in
      case write_fault w (key_of obj) of
        Some err \<Rightarrow> (Some err, w')
      | None \<Rightarrow>
          if key_of obj \<in> set (map key_of (store w))
          then (None, w'\<lparr>store := map (\<lambda>old. if key_of old = key_of obj then obj else old)
                                       (store w)\<rparr>)
          else (Some NotFound, w'))"

definition client_Delete :: "object \<Rightarrow> world \<Rightarrow> error option \<times> world" where
  "client_Delete obj w =
     (let w' = w\<lparr>calls := calls w @ [CallDelete (key_of obj)]\<rparr> in
      case delete_fault w (key_of obj) of
        Some err \<Rightarrow> (Some err, w')
      | None \<Rightarrow>
          if key_of obj \<in> set (map key_of (store w))
          then (None, w'\<lparr>store := filter (\<lambda>old. key_of old \<noteq> key_of obj) (store w)\<rparr>)
          else (Some NotFound, w'))"

subsection \<open>The create-or-update engine and the status aggregator\<close>

text \<open>
  Modelled from the spec: \<^verbatim>\<open>common.ResourceStatus\<close> is not among the source files.
  The spec (3) gives it as the outcome of one operation, Created, Updated or Unchanged,
  next to an optional error; an operation that fails has no outcome to report.
\<close>

datatype OperationResult = Created | Updated | Unchanged

type_synonym ResourceStatus = "OperationResult option"

type_synonym ReconcileFunc = "request \<Rightarrow> world \<Rightarrow> (ResourceStatus \<times> error option) \<times> world"

text \<open>
  Modelled from the spec: \<^verbatim>\<open>WithAppLabels\<close> of the engine is not among the source
  files. The spec has the managed label set applied to the desired object before it
  is created (4.1), and has it "present on every object this system creates or
  updates" (3), also after a merge, "even if the merge function copies only a subset
  of other fields" (8).
\<close>

definition applyLabels :: "(string \<rightharpoonup> string) \<Rightarrow> object \<Rightarrow> object" where
  "applyLabels managed obj = obj\<lparr>Labels := Labels obj ++ managed\<rparr>"

text \<open>
  Modelled from the spec: \<^verbatim>\<open>common.CreateOrUpdate(request). ... .Reconcile()\<close>, the
  engine of package \<^verbatim>\<open>internal/common\<close>, is not among the source files. The spec
  (4.1, \<^verbatim>\<open>ReconcileOne(desired, mergeFn)\<close>) gives it as: fetch the existing object by
  (kind, namespace, name); not found: apply the managed label set to the desired
  object, create it, return Created; found: invoke the merge function on the desired
  object and on the in-memory form of the existing one, which carries the managed
  labels (3, 8); if the merged result differs from what was fetched, write it back and
  return Updated, otherwise return Unchanged; any store failure is surfaced to the
  caller untouched. Nothing else of the desired object reaches a found object: what
  is copied from it is what the merge function copies.
\<close>

definition CreateOrUpdate ::
  "(string \<rightharpoonup> string) \<Rightarrow> (object \<Rightarrow> object \<Rightarrow> object) \<Rightarrow> object \<Rightarrow> world
     \<Rightarrow> (ResourceStatus \<times> error option) \<times> world" where
  "CreateOrUpdate managed mergeFn desired w =
     (case client_Get (key_of desired) w of
        (Inl err, w1) \<Rightarrow>
          if IsNotFound err then
            (case client_Create (applyLabels managed desired) w1 of
               (None, w2) \<Rightarrow> ((Some Created, None), w2)
             | (Some err', w2) \<Rightarrow> ((None, Some err'), w2))
          else ((None, Some err), w1)
      | (Inr existing, w1) \<Rightarrow>
          (let merged = mergeFn desired (applyLabels managed existing) in
           if merged = existing then ((Some Unchanged, None), w1)
           else
             (case client_Update merged w1 of
                (None, w2) \<Rightarrow> ((Some Updated, None), w2)
              | (Some err', w2) \<Rightarrow> ((None, Some err'), w2))))"

text \<open>
  Modelled from the spec: \<^verbatim>\<open>common.CollectResourceStatus(request, funcs...)\<close> is not
  among the source files. The spec (4.2, \<^verbatim>\<open>RunAll(ops)\<close>) gives it as: execute the
  operations strictly in the given order; on the first operation returning a
  non-absence error abort immediately, no further operation runs, and return all
  statuses collected so far plus the triggering error. The spec's example (8) fixes
  what "collected so far" contains: for [ok, ok, fail, ok] exactly three statuses are
  returned, so the status of the failing operation is collected before the abort.
\<close>

fun CollectResourceStatus ::
  "request \<Rightarrow> ReconcileFunc list \<Rightarrow> world \<Rightarrow> (ResourceStatus list \<times> error option) \<times> world" where
  "CollectResourceStatus request [] w = (([], None), w)"
| "CollectResourceStatus request (f # funcs) w =
     (case f request w of
        ((status, err), w') \<Rightarrow>
          (case err of
             Some e \<Rightarrow>
               if \<not> IsNotFound e then (([status], Some e), w')
               else (case CollectResourceStatus request funcs w' of
                       ((statuses, err'), w'') \<Rightarrow> ((status # statuses, err'), w''))
           | None \<Rightarrow>
               (case CollectResourceStatus request funcs w' of
                  ((statuses, err'), w'') \<Rightarrow> ((status # statuses, err'), w''))))"

subsection \<open>The reconcile functions for the namespace and the roles\<close>

text \<open>
  \<^verbatim>\<open>reconcileGoldenImagesNS\<close> sets no update function: a found object is left as it is.
\<close>

definition noUpdateFunc :: "object \<Rightarrow> object \<Rightarrow> object" where
  "noUpdateFunc newRes foundRes = foundRes"

definition reconcileGoldenImagesNS :: "env \<Rightarrow> ReconcileFunc" where
  "reconcileGoldenImagesNS env request w =
     CreateOrUpdate (AppLabels env operandName (operandComponent env)) noUpdateFunc
       (newGoldenImagesNS env (GoldenImagesNSname env)) w"

definition roleUpdateFunc :: "object \<Rightarrow> object \<Rightarrow> object" where
  "roleUpdateFunc newRes foundRes = foundRes\<lparr>Rules := Rules newRes\<rparr>"

definition reconcileViewRole :: "env \<Rightarrow> ReconcileFunc" where
  "reconcileViewRole env request w =
     CreateOrUpdate (AppLabels env operandName (operandComponent env)) roleUpdateFunc
       (newViewRole env (GoldenImagesNSname env)) w"

definition roleBindingUpdateFunc :: "object \<Rightarrow> object \<Rightarrow> object" where
  "roleBindingUpdateFunc newRes foundRes =
     foundRes\<lparr>Subjects := Subjects newRes, RoleRef := RoleRef newRes\<rparr>"

definition reconcileViewRoleBinding :: "env \<Rightarrow> ReconcileFunc" where
  "reconcileViewRoleBinding env request w =
     CreateOrUpdate (AppLabels env operandName (operandComponent env)) roleBindingUpdateFunc
       (newViewRoleBinding env (GoldenImagesNSname env)) w"

definition reconcileEditRole :: "env \<Rightarrow> ReconcileFunc" where
  "reconcileEditRole env request w =
     CreateOrUpdate (AppLabels env operandName (operandComponent env)) roleUpdateFunc
       (newEditRole env) w"

subsection \<open>Taking over the templates of older versions\<close>

definition quote :: string where
  "quote = [CHR 0x27]"

text \<open>
  The selector built by the anonymous function at the head of
  \<^verbatim>\<open>reconcileOlderTemplates\<close>: type label equal to "base", version label not equal to
  \<open>Version\<close>. A requirement that cannot be built is a panic.
\<close>

definition templatesSelector :: "env \<Rightarrow> requirement list outcome" where
  "templatesSelector env =
     (case NewRequirement env (TemplateTypeLabel env) Equals [''base''] of
        None \<Rightarrow>
          Panic (PanicMessage (''Failed creating label selector for '' @ quote
                   @ TemplateTypeLabel env @ ''='' @ ''base'' @ quote))
      | Some baseRequirement \<Rightarrow>
          (case NewRequirement env (TemplateVersionLabel env) NotEquals [Version env] of
             None \<Rightarrow>
               Panic (PanicMessage (''Failed creating label selector for '' @ quote
                        @ TemplateVersionLabel env @ ''!='' @ Version env @ quote))
           | Some versionRequirement \<Rightarrow> Return [baseRequirement, versionRequirement]))"

text \<open>
  The first statements of the loop body: the listed template gets the deprecated
  annotation, in memory, while the plan is built.
\<close>

definition deprecate :: "env \<Rightarrow> object \<Rightarrow> object" where
  "deprecate env template =
     template\<lparr>Annotations := (Annotations template)(TemplateDeprecatedAnnotation env \<mapsto> ''true'')\<rparr>"

definition hasReservedPrefix :: "env \<Rightarrow> string \<Rightarrow> bool" where
  "hasReservedPrefix env k =
     (prefix (TemplateOsLabelPrefix env) k
      \<or> prefix (TemplateFlavorLabelPrefix env) k
      \<or> prefix (TemplateWorkloadLabelPrefix env) k)"

text \<open>
  The update function of an older template ignores the new resource and deletes from
  the found one every label whose key has one of the three prefixes.
\<close>

definition olderTemplateUpdateFunc :: "env \<Rightarrow> object \<Rightarrow> object \<Rightarrow> object" where
  "olderTemplateUpdateFunc env newRes foundTemplate =
     foundTemplate\<lparr>Labels := (\<lambda>k. if hasReservedPrefix env k then None
                                    else Labels foundTemplate k)\<rparr>"

text \<open>
  The closure appended for one listed template. \<^verbatim>\<open>template\<close> is declared inside the
  loop body, so every closure holds its own pointer, to its own element of the list
  that the call has just fetched; nothing writes to that element after the annotation
  is set, hence the closure is a function of the annotated element. It ignores its own
  parameter and uses the request of the enclosing call.
\<close>

definition reconcileOlderTemplate :: "env \<Rightarrow> request \<Rightarrow> object \<Rightarrow> ReconcileFunc" where
  "reconcileOlderTemplate env request template =
     (\<lambda>_ w. CreateOrUpdate (AppLabels env operandName (operandComponent env))
               (olderTemplateUpdateFunc env) template w)"

definition reconcileOlderTemplates ::
  "env \<Rightarrow> request \<Rightarrow> world \<Rightarrow> (ReconcileFunc list \<times> error option) outcome \<times> world" where
  "reconcileOlderTemplates env request w =
     (case templatesSelector env of
        Panic p \<Rightarrow> (Panic p, w)
      | Return sel \<Rightarrow>
          (case client_List (CommonTemplates_Namespace request) sel w of
             ((items, err), w') \<Rightarrow>
               (case err of
                  Some e \<Rightarrow>
                    if \<not> IsNotFound e then (Return ([], Some e), w')
                    else (Return (map (\<lambda>template. reconcileOlderTemplate env request
                                           (deprecate env template)) items, None), w')
                | None \<Rightarrow>
                    (Return (map (\<lambda>template. reconcileOlderTemplate env request
                                      (deprecate env template)) items, None), w'))))"

subsection \<open>The bundle, loaded once\<close>

definition filepath_Join :: "string \<Rightarrow> string \<Rightarrow> string" where
  "filepath_Join dir file = dir @ ''/'' @ file"

text \<open>
  \<^verbatim>\<open>loadTemplates\<close>: the assignment to \<^verbatim>\<open>templatesBundle\<close> happens before the error is
  looked at; a read error and an empty bundle both panic.
\<close>

definition bundleFilename :: "env \<Rightarrow> string" where
  "bundleFilename env =
     filepath_Join (BundleDir env) (''common-templates-'' @ Version env @ ''.yaml'')"

definition loadTemplates :: "env \<Rightarrow> world \<Rightarrow> unit outcome \<times> world" where
  "loadTemplates env w =
     (let filename = bundleFilename env;
          w' = w\<lparr>calls := calls w @ [CallReadTemplates filename],
                 templatesBundle := fst (ReadTemplates env filename)\<rparr>
      in case snd (ReadTemplates env filename) of
           Some err \<Rightarrow> (Panic (PanicError err), w')
         | None \<Rightarrow>
             if length (templatesBundle w') = 0
             then (Panic (PanicMessage ''No templates could be found in the installed bundle''), w')
             else (Return (), w'))"

text \<open>
  \<^verbatim>\<open>sync.Once.Do\<close>: the function runs on the first call only, and a call that panics
  counts as the first call.
\<close>

definition Once_Do :: "(world \<Rightarrow> unit outcome \<times> world) \<Rightarrow> world \<Rightarrow> unit outcome \<times> world" where
  "Once_Do f w = (if loadTemplatesOnce w then (Return (), w) else f (w\<lparr>loadTemplatesOnce := True\<rparr>))"

text \<open>The update function of a bundle template copies the objects and the parameters.\<close>

definition templateUpdateFunc :: "object \<Rightarrow> object \<Rightarrow> object" where
  "templateUpdateFunc newTemplate foundTemplate =
     foundTemplate\<lparr>Objects := Objects newTemplate, Parameters := Parameters newTemplate\<rparr>"

text \<open>
  The closure appended for the bundle template at index \<open>i\<close>. It holds a pointer into
  the package variable, so it reads the element when it runs. A Go pointer cannot
  dangle; the index is in range for every closure \<^verbatim>\<open>reconcileTemplatesFuncs\<close> builds,
  and the last branch is there only to make the function total.
\<close>

definition reconcileTemplate :: "env \<Rightarrow> nat \<Rightarrow> ReconcileFunc" where
  "reconcileTemplate env i =
     (\<lambda>request w.
        if i < length (templatesBundle w)
        then CreateOrUpdate (AppLabels env operandName (operandComponent env))
               templateUpdateFunc (templatesBundle w ! i) w
        else ((None, Some (Failure ''invalid pointer'')), w))"

definition setNamespace :: "string \<Rightarrow> object \<Rightarrow> object" where
  "setNamespace ns template = template\<lparr>Namespace := ns\<rparr>"

definition reconcileTemplatesFuncs ::
  "env \<Rightarrow> request \<Rightarrow> world \<Rightarrow> ReconcileFunc list outcome \<times> world" where
  "reconcileTemplatesFuncs env request w =
     (case Once_Do (loadTemplates env) w of
        (Panic p, w1) \<Rightarrow> (Panic p, w1)
      | (Return _, w1) \<Rightarrow>
          (let ns = CommonTemplates_Namespace request in
           (Return (map (reconcileTemplate env) [0..<length (templatesBundle w1)]),
            w1\<lparr>templatesBundle := map (setNamespace ns) (templatesBundle w1)\<rparr>)))"

subsection \<open>Reconcile and Cleanup\<close>

definition Reconcile ::
  "env \<Rightarrow> request \<Rightarrow> world \<Rightarrow> (ResourceStatus list \<times> error option) outcome \<times> world" where
  "Reconcile env request w =
     (let funcs = [reconcileGoldenImagesNS env, reconcileViewRole env,
                   reconcileViewRoleBinding env, reconcileEditRole env]
      in case reconcileOlderTemplates env request w of
           (Panic p, w1) \<Rightarrow> (Panic p, w1)
         | (Return (oldTemplateFuncs, Some err), w1) \<Rightarrow> (Return ([], Some err), w1)
         | (Return (oldTemplateFuncs, None), w1) \<Rightarrow>
             (case reconcileTemplatesFuncs env request w1 of
                (Panic p, w2) \<Rightarrow> (Panic p, w2)
              | (Return templateFuncs, w2) \<Rightarrow>
                  (case CollectResourceStatus request
                          (funcs @ oldTemplateFuncs @ templateFuncs) w2 of
                     (res, w3) \<Rightarrow> (Return res, w3))))"

text \<open>The delete loop of \<^verbatim>\<open>Cleanup\<close>: absence is skipped, any other error returns at once.\<close>

fun deleteObjects :: "object list \<Rightarrow> world \<Rightarrow> error option \<times> world" where
  "deleteObjects [] w = (None, w)"
| "deleteObjects (obj # objs) w =
     (case client_Delete obj w of
        (Some err, w') \<Rightarrow>
          if \<not> IsNotFound err then (Some err, w') else deleteObjects objs w'
      | (None, w') \<Rightarrow> deleteObjects objs w')"

definition Cleanup_objects :: "env \<Rightarrow> request \<Rightarrow> world \<Rightarrow> object list" where
  "Cleanup_objects env request w =
     [newGoldenImagesNS env (GoldenImagesNSname env),
      newViewRole env (GoldenImagesNSname env),
      newViewRoleBinding env (GoldenImagesNSname env),
      newEditRole env]
     @ map (setNamespace (CommonTemplates_Namespace request)) (templatesBundle w)"

text \<open>
  The first loop of \<^verbatim>\<open>Cleanup\<close> writes the namespace into every element of the package
  variable and appends a pointer to it; the second loop deletes.
\<close>

definition Cleanup :: "env \<Rightarrow> request \<Rightarrow> world \<Rightarrow> error option \<times> world" where
  "Cleanup env request w =
     deleteObjects (Cleanup_objects env request w)
       (w\<lparr>templatesBundle :=
             map (setNamespace (CommonTemplates_Namespace request)) (templatesBundle w)\<rparr>)"

subsection \<open>Notions the statements below use\<close>

text \<open>
  The objects a migration is planned for, in the words of the spec: templates of the
  target namespace whose type label equals "base" and whose version label is not
  equal to the current version.
\<close>

definition staleBaseTemplates :: "env \<Rightarrow> string \<Rightarrow> object list \<Rightarrow> object list" where
  "staleBaseTemplates env ns objs =
     filter (\<lambda>obj. Kind obj = KTemplate \<and> Namespace obj = ns
                   \<and> Labels obj (TemplateTypeLabel env) = Some ''base''
                   \<and> Labels obj (TemplateVersionLabel env) \<noteq> Some (Version env)) objs"





text \<open>
  What the engine makes of a found older template: the managed labels are applied,
  then the update function of the older templates runs.
\<close>

definition migrated :: "env \<Rightarrow> object \<Rightarrow> object" where
  "migrated env obj =
     olderTemplateUpdateFunc env (deprecate env obj)
       (applyLabels (AppLabels env operandName (operandComponent env)) obj)"

text \<open>
  A merge function in the words of the spec (4.1) "selectively copies mutable,
  kind-specific fields from desired into existing". \<open>copyFields fs\<close> is the merge
  function that copies the fields \<open>fs\<close>. The update functions of the roles, of the
  binding and of the bundle templates are of this form, as is setting none; the
  update function of the older templates, which deletes labels, is not.
\<close>

datatype field = FRules | FSubjects | FRoleRef | FObjects | FParameters

fun copyField :: "field \<Rightarrow> object \<Rightarrow> object \<Rightarrow> object" where
  "copyField FRules newRes foundRes = foundRes\<lparr>Rules := Rules newRes\<rparr>"
| "copyField FSubjects newRes foundRes = foundRes\<lparr>Subjects := Subjects newRes\<rparr>"
| "copyField FRoleRef newRes foundRes = foundRes\<lparr>RoleRef := RoleRef newRes\<rparr>"
| "copyField FObjects newRes foundRes = foundRes\<lparr>Objects := Objects newRes\<rparr>"
| "copyField FParameters newRes foundRes = foundRes\<lparr>Parameters := Parameters newRes\<rparr>"

fun copyFields :: "field list \<Rightarrow> object \<Rightarrow> object \<Rightarrow> object" where
  "copyFields [] newRes foundRes = foundRes"
| "copyFields (fld # fs) newRes foundRes = copyFields fs newRes (copyField fld newRes foundRes)"

text \<open>The calls of the log that read the bundle file.\<close>

fun isReadTemplates :: "call \<Rightarrow> bool" where
  "isReadTemplates (CallReadTemplates _) = True"
| "isReadTemplates _ = False"

text \<open>
  A process lifetime, as far as the bundle is concerned: any sequence of calls of
  \<^verbatim>\<open>reconcileTemplatesFuncs\<close>, each with its own version and reader, whatever each
  call's outcome.
\<close>

fun bundleRequests :: "(env \<times> request) list \<Rightarrow> world \<Rightarrow> world" where
  "bundleRequests [] w = w"
| "bundleRequests ((env, request) # rest) w =
     bundleRequests rest (snd (reconcileTemplatesFuncs env request w))"

subsection \<open>Example inputs\<close>

definition emptyObject :: "kind \<Rightarrow> string \<Rightarrow> string \<Rightarrow> object" where
  "emptyObject k ns n =
     \<lparr>Kind = k, Namespace = ns, Name = n, Labels = Map.empty, Annotations = Map.empty,
      Rules = [], Subjects = [], RoleRef = [], Objects = [], Parameters = []\<rparr>"

definition exampleBundle :: "object list" where
  "exampleBundle = [(emptyObject KTemplate ''a'' ''fedora'')\<lparr>Objects := [''vm'']\<rparr>]"

definition exampleEnv :: env where
  "exampleEnv =
     \<lparr>TemplateTypeLabel = ''type'', TemplateVersionLabel = ''version'',
      TemplateOsLabelPrefix = ''os/'', TemplateFlavorLabelPrefix = ''flavor/'',
      TemplateWorkloadLabelPrefix = ''workload/'', TemplateDeprecatedAnnotation = ''deprecated'',
      Version = ''v2'', BundleDir = ''data'', GoldenImagesNSname = ''golden'',
      AppComponentTemplating = ''templating'',
      validLabelKey = (\<lambda>k. k \<noteq> []), validLabelValue = (\<lambda>v. length v \<le> 63),
      ReadTemplates = (\<lambda>file. (exampleBundle, None)),
      newGoldenImagesNS = (\<lambda>n. emptyObject KNamespace [] n),
      newViewRole = (\<lambda>ns. emptyObject KRole ns ''view''),
      newViewRoleBinding = (\<lambda>ns. emptyObject KRoleBinding ns ''view-binding''),
      newEditRole = emptyObject KClusterRole [] ''edit'',
      AppLabels = (\<lambda>n c. [''app'' \<mapsto> n, ''component'' \<mapsto> c])\<rparr>"

definition exampleRequest :: request where
  "exampleRequest = \<lparr>CommonTemplates_Namespace = ''b''\<rparr>"

definition emptyWorld :: world where
  "emptyWorld =
     \<lparr>store = [], calls = [], list_fault = None, get_fault = (\<lambda>k. None),
      write_fault = (\<lambda>k. None), delete_fault = (\<lambda>k. None),
      loadTemplatesOnce = False, templatesBundle = []\<rparr>"

text \<open>A cluster that holds the namespace and one bundle template, after the bundle was loaded.\<close>

definition cleanupWorld :: world where
  "cleanupWorld =
     emptyWorld\<lparr>store := [emptyObject KNamespace [] ''golden'', emptyObject KTemplate ''b'' ''fedora''],
                loadTemplatesOnce := True, templatesBundle := exampleBundle\<rparr>"

definition forbiddenRole :: "key \<Rightarrow> error option" where
  "forbiddenRole k = (if k = (KRole, ''golden'', ''view'') then Some (Failure ''forbidden'') else None)"

definition forbiddenBinding :: "key \<Rightarrow> error option" where
  "forbiddenBinding k =
     (if k = (KRoleBinding, ''golden'', ''view-binding'') then Some (Failure ''forbidden'') else None)"

text \<open>
  A cluster with three base templates of older versions and two of the current one, all
  in the target namespace.
\<close>

definition staleFedora :: object where
  "staleFedora = (emptyObject KTemplate ''b'' ''fedora-v1'')
     \<lparr>Labels := [''type'' \<mapsto> ''base'', ''version'' \<mapsto> ''v1'', ''os/fedora'' \<mapsto> ''true'']\<rparr>"

definition staleRhel :: object where
  "staleRhel = (emptyObject KTemplate ''b'' ''rhel-v1'')
     \<lparr>Labels := [''type'' \<mapsto> ''base'', ''version'' \<mapsto> ''v1'', ''flavor/tiny'' \<mapsto> ''true'']\<rparr>"

definition staleWindows :: object where
  "staleWindows = (emptyObject KTemplate ''b'' ''windows-v0'')
     \<lparr>Labels := [''type'' \<mapsto> ''base'', ''version'' \<mapsto> ''v0'', ''workload/server'' \<mapsto> ''true'']\<rparr>"

definition currentFedora :: object where
  "currentFedora = (emptyObject KTemplate ''b'' ''fedora-v2'')
     \<lparr>Labels := [''type'' \<mapsto> ''base'', ''version'' \<mapsto> ''v2'', ''os/fedora'' \<mapsto> ''true'']\<rparr>"

definition currentRhel :: object where
  "currentRhel = (emptyObject KTemplate ''b'' ''rhel-v2'')
     \<lparr>Labels := [''type'' \<mapsto> ''base'', ''version'' \<mapsto> ''v2'', ''flavor/tiny'' \<mapsto> ''true'']\<rparr>"

definition migrationWorld :: world where
  "migrationWorld =
     emptyWorld\<lparr>store := [staleFedora, currentFedora, staleRhel, currentRhel, staleWindows]\<rparr>"






text \<open>Two bundle readers that fail: one cannot read the file, one finds no template in it.\<close>

definition unreadable :: "string \<Rightarrow> object list \<times> error option" where
  "unreadable file = ([], Some (Failure ''unreadable''))"

definition noTemplates :: "string \<Rightarrow> object list \<times> error option" where
  "noTemplates file = ([], None)"

section \<open>Properties\<close>

lemmas example_defs = exampleEnv_def exampleRequest_def emptyWorld_def emptyObject_def
  exampleBundle_def key_of_def operandName_def operandComponent_def IsNotFound_def

lemmas stale_defs = staleFedora_def staleRhel_def staleWindows_def currentFedora_def
  currentRhel_def migrationWorld_def

lemmas engine_defs = applyLabels_def client_Get_def client_Create_def client_Update_def
  CreateOrUpdate_def

subsection \<open>The status aggregator\<close>

lemma CollectResourceStatus_append:
  "CollectResourceStatus request pre w = ((sts, None), w1) \<Longrightarrow>
   CollectResourceStatus request (pre @ rest) w =
     (case CollectResourceStatus request rest w1 of
        ((sts', err), w2) \<Rightarrow> ((sts @ sts', err), w2))"
proof (induction pre arbitrary: w sts)
  case Nil
  then show ?case by (simp split: prod.splits)
next
  case (Cons f pre)
  then show ?case
    by (auto split: prod.splits option.splits if_splits)
qed

lemma CollectResourceStatus_length:
  "CollectResourceStatus request funcs w = ((sts, None), w1) \<Longrightarrow> length sts = length funcs"
  by (induction funcs arbitrary: w sts) (auto split: prod.splits option.splits if_splits)

text \<open>
  C2. The aggregator runs the operations in the given order, each on the world the
  previous one left. When the operations \<open>pre\<close> have run without an abort and the next
  one, \<open>f\<close>, returns an error that is not the absence error, the aggregator stops there:
  it returns the statuses collected so far (those of \<open>pre\<close> and of \<open>f\<close>, one per
  operation that ran) with that error, the world is the one \<open>f\<close> left, and the result
  does not depend on the operations \<open>rest\<close> that follow, which never run.
\<close>

theorem CollectResourceStatus_aborts:
  assumes "CollectResourceStatus request pre w = ((sts, None), w1)"
    and "f request w1 = ((st, Some e), w2)"
    and "\<not> IsNotFound e"
  shows "CollectResourceStatus request (pre @ f # rest) w = ((sts @ [st], Some e), w2)
         \<and> length (sts @ [st]) = Suc (length pre)"
  using CollectResourceStatus_append [OF assms(1), of "f # rest"] assms(2,3)
    CollectResourceStatus_length [OF assms(1)]
  by simp

text \<open>
  The spec's example, with the operand's own first four operations on an empty cluster
  that refuses to store the role binding: [ok, ok, fail, ok] returns three statuses and
  the error of the third step, and the log shows that the fourth step made no call.
\<close>

theorem CollectResourceStatus_aborts_witness:
  "fst (CollectResourceStatus exampleRequest
          [reconcileGoldenImagesNS exampleEnv, reconcileViewRole exampleEnv,
           reconcileViewRoleBinding exampleEnv, reconcileEditRole exampleEnv]
          (emptyWorld\<lparr>write_fault := forbiddenBinding\<rparr>))
     = ([Some Created, Some Created, None], Some (Failure ''forbidden''))
   \<and> calls (snd (CollectResourceStatus exampleRequest
          [reconcileGoldenImagesNS exampleEnv, reconcileViewRole exampleEnv,
           reconcileViewRoleBinding exampleEnv, reconcileEditRole exampleEnv]
          (emptyWorld\<lparr>write_fault := forbiddenBinding\<rparr>)))
     = [CallGet (KNamespace, [], ''golden''), CallCreate (KNamespace, [], ''golden''),
        CallGet (KRole, ''golden'', ''view''), CallCreate (KRole, ''golden'', ''view''),
        CallGet (KRoleBinding, ''golden'', ''view-binding''),
        CallCreate (KRoleBinding, ''golden'', ''view-binding'')]"
proof -
  let ?w = "emptyWorld\<lparr>write_fault := forbiddenBinding\<rparr>"
  let ?pre = "[reconcileGoldenImagesNS exampleEnv, reconcileViewRole exampleEnv]"
  let ?X = "CollectResourceStatus exampleRequest ?pre ?w"
  let ?Y = "reconcileViewRoleBinding exampleEnv exampleRequest (snd ?X)"
  note defs = example_defs engine_defs forbiddenBinding_def reconcileGoldenImagesNS_def
    reconcileViewRole_def reconcileViewRoleBinding_def
  have h1: "?X = (([Some Created, Some Created], None), snd ?X)"
    by (simp add: defs)
  have h2: "?Y = ((None, Some (Failure ''forbidden'')), snd ?Y)"
    by (simp add: defs)
  have h3: "\<not> IsNotFound (Failure ''forbidden'')"
    by (simp add: IsNotFound_def)
  have c: "calls (snd ?Y) =
       [CallGet (KNamespace, [], ''golden''), CallCreate (KNamespace, [], ''golden''),
        CallGet (KRole, ''golden'', ''view''), CallCreate (KRole, ''golden'', ''view''),
        CallGet (KRoleBinding, ''golden'', ''view-binding''),
        CallCreate (KRoleBinding, ''golden'', ''view-binding'')]"
    by (simp add: defs)
  from CollectResourceStatus_aborts [where f = "reconcileViewRoleBinding exampleEnv"
      and rest = "[reconcileEditRole exampleEnv]", OF h1 h2 h3] c
  show ?thesis by simp
qed

subsection \<open>Cleanup\<close>

lemma deleteObjects_append:
  "fst (deleteObjects pre w) = None \<Longrightarrow>
   deleteObjects (pre @ rest) w = deleteObjects rest (snd (deleteObjects pre w))"
  by (induction pre arbitrary: w) (auto split: prod.splits option.splits if_splits)

lemma client_Delete_frame:
  "client_Delete obj w = (r, w') \<Longrightarrow>
     delete_fault w' = delete_fault w \<and> calls w' = calls w @ [CallDelete (key_of obj)]
     \<and> templatesBundle w' = templatesBundle w \<and> loadTemplatesOnce w' = loadTemplatesOnce w"
  by (auto simp: client_Delete_def Let_def split: option.splits if_splits)

text \<open>
  While every delete answers with success or absence, the loop goes through the whole
  list: one delete call per element, in order, and what is left in the store is what no
  successful delete named.
\<close>

lemma deleteObjects_tolerant:
  "\<forall>obj \<in> set objs. delete_fault w (key_of obj) = None
                    \<or> delete_fault w (key_of obj) = Some NotFound \<Longrightarrow>
   fst (deleteObjects objs w) = None
   \<and> calls (snd (deleteObjects objs w)) = calls w @ map (\<lambda>obj. CallDelete (key_of obj)) objs
   \<and> delete_fault (snd (deleteObjects objs w)) = delete_fault w
   \<and> templatesBundle (snd (deleteObjects objs w)) = templatesBundle w
   \<and> store (snd (deleteObjects objs w)) =
       filter (\<lambda>old. \<forall>obj \<in> set objs. delete_fault w (key_of obj) = None
                          \<longrightarrow> key_of old \<noteq> key_of obj) (store w)"
proof (induction objs arbitrary: w)
  case Nil
  then show ?case by simp
next
  case (Cons obj objs)
  obtain r w' where d: "client_Delete obj w = (r, w')"
    by (cases "client_Delete obj w")
  note fr = client_Delete_frame [OF d]
  have r: "r = None \<or> r = Some NotFound"
    using d Cons.prems
    by (auto simp: client_Delete_def Let_def split: option.splits if_splits)
  have st: "store w' = (if delete_fault w (key_of obj) = None
                        then filter (\<lambda>old. key_of old \<noteq> key_of obj) (store w) else store w)"
  proof -
    have "key_of obj \<notin> key_of ` set (store w) \<Longrightarrow>
          filter (\<lambda>old. key_of old \<noteq> key_of obj) (store w) = store w"
      by (rule filter_True) (metis imageI)
    then show ?thesis
      using d by (auto simp: client_Delete_def Let_def split: option.splits if_splits)
  qed
  have step: "deleteObjects (obj # objs) w = deleteObjects objs w'"
    using d r by (auto simp: IsNotFound_def)
  have prem: "\<forall>obj \<in> set objs. delete_fault w' (key_of obj) = None
                              \<or> delete_fault w' (key_of obj) = Some NotFound"
    using Cons.prems fr by simp
  note ih = Cons.IH [OF prem]
  show ?case unfolding step using ih fr st
    by (auto intro!: filter_cong)
qed

text \<open>
  C7. Cleanup deletes the namespace, the two roles, the binding and every cached bundle
  template. If every delete answers with success or with absence, Cleanup returns no
  error and the log has gained exactly one delete call per listed object, in list
  order. If the delete of \<open>obj\<close> is the first to answer with another error \<open>e\<close>, Cleanup
  returns \<open>e\<close>, the delete calls are those of the objects up to and including \<open>obj\<close>
  (none for \<open>rest\<close>), and the objects deleted before stay deleted.
\<close>

theorem Cleanup_deleteAll:
  "((\<forall>obj \<in> set (Cleanup_objects env request w).
        delete_fault w (key_of obj) = None \<or> delete_fault w (key_of obj) = Some NotFound)
      \<longrightarrow> fst (Cleanup env request w) = None
          \<and> calls (snd (Cleanup env request w))
              = calls w @ map (\<lambda>obj. CallDelete (key_of obj)) (Cleanup_objects env request w))
   \<and> (Cleanup_objects env request w = pre @ obj # rest
        \<and> (\<forall>p \<in> set pre. delete_fault w (key_of p) = None
                         \<or> delete_fault w (key_of p) = Some NotFound)
        \<and> delete_fault w (key_of obj) = Some e \<and> \<not> IsNotFound e
      \<longrightarrow> fst (Cleanup env request w) = Some e
          \<and> calls (snd (Cleanup env request w))
              = calls w @ map (\<lambda>obj. CallDelete (key_of obj)) (pre @ [obj])
          \<and> store (snd (Cleanup env request w))
              = filter (\<lambda>old. \<forall>p \<in> set pre. delete_fault w (key_of p) = None
                                  \<longrightarrow> key_of old \<noteq> key_of p) (store w))"
proof (intro conjI impI)
  let ?w = "w\<lparr>templatesBundle :=
                 map (setNamespace (CommonTemplates_Namespace request)) (templatesBundle w)\<rparr>"
  {
    assume "\<forall>obj \<in> set (Cleanup_objects env request w).
        delete_fault w (key_of obj) = None \<or> delete_fault w (key_of obj) = Some NotFound"
    then have h: "\<forall>obj \<in> set (Cleanup_objects env request w).
        delete_fault ?w (key_of obj) = None \<or> delete_fault ?w (key_of obj) = Some NotFound"
      by simp
    from deleteObjects_tolerant [OF h]
    show "fst (Cleanup env request w) = None"
      and "calls (snd (Cleanup env request w))
              = calls w @ map (\<lambda>obj. CallDelete (key_of obj)) (Cleanup_objects env request w)"
      by (simp_all add: Cleanup_def)
  }
  assume a: "Cleanup_objects env request w = pre @ obj # rest
        \<and> (\<forall>p \<in> set pre. delete_fault w (key_of p) = None
                         \<or> delete_fault w (key_of p) = Some NotFound)
        \<and> delete_fault w (key_of obj) = Some e \<and> \<not> IsNotFound e"
  then have h: "\<forall>p \<in> set pre. delete_fault ?w (key_of p) = None
                             \<or> delete_fault ?w (key_of p) = Some NotFound"
    by simp
  note t = deleteObjects_tolerant [OF h]
  let ?w1 = "snd (deleteObjects pre ?w)"
  have split: "deleteObjects (pre @ obj # rest) ?w = deleteObjects (obj # rest) ?w1"
    using t by (simp add: deleteObjects_append)
  have del: "client_Delete obj ?w1 = (Some e, ?w1\<lparr>calls := calls ?w1 @ [CallDelete (key_of obj)]\<rparr>)"
    using a t by (simp add: client_Delete_def)
  have res: "Cleanup env request w = (Some e, ?w1\<lparr>calls := calls ?w1 @ [CallDelete (key_of obj)]\<rparr>)"
    using a split del by (simp add: Cleanup_def)
  show "fst (Cleanup env request w) = Some e"
    using res by simp
  show "calls (snd (Cleanup env request w))
          = calls w @ map (\<lambda>obj. CallDelete (key_of obj)) (pre @ [obj])"
    using res t by simp
  show "store (snd (Cleanup env request w))
          = filter (\<lambda>old. \<forall>p \<in> set pre. delete_fault w (key_of p) = None
                              \<longrightarrow> key_of old \<noteq> key_of p) (store w)"
    using res t by simp
qed

text \<open>
  On a cluster that holds the namespace and the template but neither role nor binding,
  Cleanup returns no error after five delete calls; when the cluster refuses to delete
  the view role, Cleanup returns that error after two delete calls, and the namespace
  stays deleted.
\<close>

theorem Cleanup_deleteAll_witness:
  "Cleanup exampleEnv exampleRequest cleanupWorld
     = (None, cleanupWorld\<lparr>store := [],
               calls := [CallDelete (KNamespace, [], ''golden''),
                         CallDelete (KRole, ''golden'', ''view''),
                         CallDelete (KRoleBinding, ''golden'', ''view-binding''),
                         CallDelete (KClusterRole, [], ''edit''),
                         CallDelete (KTemplate, ''b'', ''fedora'')],
               templatesBundle := map (setNamespace ''b'') exampleBundle\<rparr>)
   \<and> fst (Cleanup exampleEnv exampleRequest (cleanupWorld\<lparr>delete_fault := forbiddenRole\<rparr>))
       = Some (Failure ''forbidden'')
   \<and> calls (snd (Cleanup exampleEnv exampleRequest (cleanupWorld\<lparr>delete_fault := forbiddenRole\<rparr>)))
       = [CallDelete (KNamespace, [], ''golden''), CallDelete (KRole, ''golden'', ''view'')]
   \<and> store (snd (Cleanup exampleEnv exampleRequest (cleanupWorld\<lparr>delete_fault := forbiddenRole\<rparr>)))
       = [emptyObject KTemplate ''b'' ''fedora'']"
  using Cleanup_deleteAll [of exampleEnv exampleRequest cleanupWorld]
    Cleanup_deleteAll [of exampleEnv exampleRequest "cleanupWorld\<lparr>delete_fault := forbiddenRole\<rparr>"
       "[emptyObject KNamespace [] ''golden'']" "emptyObject KRole ''golden'' ''view''"
       "[emptyObject KRoleBinding ''golden'' ''view-binding'', emptyObject KClusterRole [] ''edit'',
         (emptyObject KTemplate ''b'' ''fedora'')\<lparr>Objects := [''vm'']\<rparr>]" "Failure ''forbidden''"]
  by (simp add: Cleanup_def Cleanup_objects_def example_defs cleanupWorld_def
      setNamespace_def forbiddenRole_def client_Delete_def)

subsection \<open>Planning the migration\<close>

lemma templatesSelector_Return:
  "templatesSelector env = Return sel \<Longrightarrow>
   sel = [Requirement (TemplateTypeLabel env) Equals [''base''],
          Requirement (TemplateVersionLabel env) NotEquals [Version env]]"
  by (auto simp: templatesSelector_def NewRequirement_def split: option.splits if_splits)

lemma selector_Matches_templates:
  "selector_Matches [Requirement (TemplateTypeLabel env) Equals [''base''],
                     Requirement (TemplateVersionLabel env) NotEquals [Version env]] ls
   = (ls (TemplateTypeLabel env) = Some ''base'' \<and> ls (TemplateVersionLabel env) \<noteq> Some (Version env))"
  by (auto simp: selector_Matches_def split: option.splits)

lemma client_List_stale:
  "templatesSelector env = Return sel \<Longrightarrow> list_fault w = None \<Longrightarrow>
   client_List ns sel w = ((staleBaseTemplates env ns (store w), None), w\<lparr>calls := calls w @ [CallList ns]\<rparr>)"
  by (drule templatesSelector_Return)
     (simp add: client_List_def staleBaseTemplates_def selector_Matches_templates)

lemma exampleSelector:
  "templatesSelector exampleEnv = Return [Requirement ''type'' Equals [''base''],
                                          Requirement ''version'' NotEquals [''v2'']]"
  by (simp add: templatesSelector_def NewRequirement_def exampleEnv_def)

text \<open>
  C3. Once the selector is built, and if the list call succeeds, the plan for
  \<open>Version\<close> has one operation per stale base template of the target namespace, in
  store order, each built from that template, and no other operation. The stale base
  templates are exactly the stored templates of that namespace whose type label
  equals "base" and whose version label is not equal to \<open>Version\<close>, so no operation is
  built from an object whose version label equals \<open>Version\<close>. With no such object the
  plan is empty and no error is returned; the same holds when the list call answers
  with the absence error.
\<close>

theorem reconcileOlderTemplates_selects:
  assumes "templatesSelector env = Return sel"
  shows "(list_fault w = None \<longrightarrow>
            reconcileOlderTemplates env request w
              = (Return (map (\<lambda>template. reconcileOlderTemplate env request (deprecate env template))
                           (staleBaseTemplates env (CommonTemplates_Namespace request) (store w)), None),
                 w\<lparr>calls := calls w @ [CallList (CommonTemplates_Namespace request)]\<rparr>)
            \<and> (\<forall>obj \<in> set (store w).
                  obj \<in> set (staleBaseTemplates env (CommonTemplates_Namespace request) (store w))
                  \<longleftrightarrow> Kind obj = KTemplate \<and> Namespace obj = CommonTemplates_Namespace request
                      \<and> Labels obj (TemplateTypeLabel env) = Some ''base''
                      \<and> Labels obj (TemplateVersionLabel env) \<noteq> Some (Version env))
            \<and> (staleBaseTemplates env (CommonTemplates_Namespace request) (store w) = []
                 \<longrightarrow> fst (reconcileOlderTemplates env request w) = Return ([], None)))
         \<and> (list_fault w = Some NotFound \<longrightarrow>
              fst (reconcileOlderTemplates env request w) = Return ([], None))"
proof (intro conjI impI)
  assume lf: "list_fault w = None"
  show r: "reconcileOlderTemplates env request w
              = (Return (map (\<lambda>template. reconcileOlderTemplate env request (deprecate env template))
                           (staleBaseTemplates env (CommonTemplates_Namespace request) (store w)), None),
                 w\<lparr>calls := calls w @ [CallList (CommonTemplates_Namespace request)]\<rparr>)"
    using assms client_List_stale [OF assms lf]
    by (simp add: reconcileOlderTemplates_def)
  show "\<forall>obj \<in> set (store w).
                  obj \<in> set (staleBaseTemplates env (CommonTemplates_Namespace request) (store w))
                  \<longleftrightarrow> Kind obj = KTemplate \<and> Namespace obj = CommonTemplates_Namespace request
                      \<and> Labels obj (TemplateTypeLabel env) = Some ''base''
                      \<and> Labels obj (TemplateVersionLabel env) \<noteq> Some (Version env)"
    by (simp add: staleBaseTemplates_def)
  assume "staleBaseTemplates env (CommonTemplates_Namespace request) (store w) = []"
  then show "fst (reconcileOlderTemplates env request w) = Return ([], None)"
    using r by simp
next
  assume "list_fault w = Some NotFound"
  then show "fst (reconcileOlderTemplates env request w) = Return ([], None)"
    using assms by (simp add: reconcileOlderTemplates_def client_List_def IsNotFound_def)
qed

text \<open>
  The spec's example: three stale base templates and two current ones give exactly
  three operations, for the three stale ones; an empty cluster gives the empty plan.
\<close>

theorem reconcileOlderTemplates_selects_witness:
  "fst (reconcileOlderTemplates exampleEnv exampleRequest migrationWorld)
     = Return (map (\<lambda>template. reconcileOlderTemplate exampleEnv exampleRequest
                                (deprecate exampleEnv template))
                 [staleFedora, staleRhel, staleWindows], None)
   \<and> fst (reconcileOlderTemplates exampleEnv exampleRequest emptyWorld) = Return ([], None)"
proof -
  have s: "staleBaseTemplates exampleEnv (CommonTemplates_Namespace exampleRequest) (store migrationWorld)
             = [staleFedora, staleRhel, staleWindows]"
    by (simp add: staleBaseTemplates_def stale_defs example_defs)
  have e: "staleBaseTemplates exampleEnv (CommonTemplates_Namespace exampleRequest) (store emptyWorld) = []"
    by (simp add: staleBaseTemplates_def emptyWorld_def)
  have l: "list_fault migrationWorld = None" "list_fault emptyWorld = None"
    by (simp_all add: migrationWorld_def emptyWorld_def)
  from reconcileOlderTemplates_selects [OF exampleSelector, of migrationWorld exampleRequest]
    reconcileOlderTemplates_selects [OF exampleSelector, of emptyWorld exampleRequest] s e l
  show ?thesis by simp
qed

text \<open>
  C10. When the selector is built and the list call answers with an error other than
  absence, Reconcile returns the empty (nil) status list with that error, and the
  world it leaves differs from the one it found by the list call in the log only: no
  operation ran (no get, create or update call), the store is unchanged and the
  bundle was not loaded.
\<close>

theorem Reconcile_list_failure:
  assumes "templatesSelector env = Return sel"
    and "list_fault w = Some e"
    and "\<not> IsNotFound e"
  shows "Reconcile env request w
           = (Return ([], Some e), w\<lparr>calls := calls w @ [CallList (CommonTemplates_Namespace request)]\<rparr>)"
  using assms
  by (simp add: Reconcile_def reconcileOlderTemplates_def client_List_def)

theorem Reconcile_list_failure_witness:
  "Reconcile exampleEnv exampleRequest (migrationWorld\<lparr>list_fault := Some (Failure ''timeout'')\<rparr>)
     = (Return ([], Some (Failure ''timeout'')),
        migrationWorld\<lparr>list_fault := Some (Failure ''timeout''), calls := [CallList ''b'']\<rparr>)"
proof -
  have h2: "list_fault (migrationWorld\<lparr>list_fault := Some (Failure ''timeout'')\<rparr>) = Some (Failure ''timeout'')"
    by simp
  have h3: "\<not> IsNotFound (Failure ''timeout'')"
    by (simp add: IsNotFound_def)
  from Reconcile_list_failure [OF exampleSelector h2 h3, of exampleRequest]
  show ?thesis by (simp add: migrationWorld_def emptyWorld_def exampleRequest_def)
qed

subsection \<open>The bundle cache\<close>

lemma reconcileTemplatesFuncs_loaded:
  "loadTemplatesOnce w \<Longrightarrow>
   reconcileTemplatesFuncs env request w
     = (Return (map (reconcileTemplate env) [0..<length (templatesBundle w)]),
        w\<lparr>templatesBundle := map (setNamespace (CommonTemplates_Namespace request)) (templatesBundle w)\<rparr>)"
  by (simp add: reconcileTemplatesFuncs_def Once_Do_def)

lemma reconcileTemplatesFuncs_once:
  "loadTemplatesOnce (snd (reconcileTemplatesFuncs env request w))"
  by (auto simp: reconcileTemplatesFuncs_def Once_Do_def loadTemplates_def Let_def
      split: prod.splits outcome.splits option.splits if_splits)

lemma reconcileTemplatesFuncs_reads:
  "length (filter isReadTemplates (calls (snd (reconcileTemplatesFuncs env request w))))
     = length (filter isReadTemplates (calls w)) + (if loadTemplatesOnce w then 0 else 1)"
  by (auto simp: reconcileTemplatesFuncs_def Once_Do_def loadTemplates_def Let_def
      split: prod.splits outcome.splits option.splits if_splits)

lemma bundleRequests_loaded:
  "loadTemplatesOnce w \<Longrightarrow>
   length (filter isReadTemplates (calls (bundleRequests rs w))) = length (filter isReadTemplates (calls w))"
proof (induction rs arbitrary: w)
  case Nil
  then show ?case by simp
next
  case (Cons r rs)
  obtain env request where r: "r = (env, request)" by (cases r)
  show ?case
    using Cons.IH [OF reconcileTemplatesFuncs_once, of env request w]
      reconcileTemplatesFuncs_reads [of env request w] Cons.prems
    by (simp add: r)
qed

lemma bundleRequests_reads:
  "length (filter isReadTemplates (calls (bundleRequests rs w)))
     \<le> length (filter isReadTemplates (calls w)) + (if loadTemplatesOnce w then 0 else 1)"
proof (cases rs)
  case Nil
  then show ?thesis by simp
next
  case (Cons r rs')
  obtain env request where r: "r = (env, request)" by (cases r)
  show ?thesis
    using bundleRequests_loaded [OF reconcileTemplatesFuncs_once, of rs' env request w]
      reconcileTemplatesFuncs_reads [of env request w]
    by (simp add: Cons r)
qed

text \<open>
  C5. After a first call that loaded the bundle \<open>ts\<close> successfully, a later call, with
  whatever version, reader and request, reads nothing: it returns one operation per
  cached template and leaves the world as it was except for the namespace written into
  the cached templates, which are still the objects \<open>ts\<close> of the first load. And over a
  whole process lifetime, whatever the calls and their outcomes, the bundle reader is
  called at most once (not at all if the once-guard was already taken).
\<close>

theorem bundle_loaded_once:
  "(\<not> loadTemplatesOnce w \<and> ReadTemplates env1 (bundleFilename env1) = (ts, None) \<and> ts \<noteq> []
      \<longrightarrow> (let w1 = snd (reconcileTemplatesFuncs env1 request1 w) in
           calls w1 = calls w @ [CallReadTemplates (bundleFilename env1)]
           \<and> reconcileTemplatesFuncs env2 request2 w1
               = (Return (map (reconcileTemplate env2) [0..<length ts]),
                  w1\<lparr>templatesBundle := map (setNamespace (CommonTemplates_Namespace request2)) ts\<rparr>)))
   \<and> length (filter isReadTemplates (calls (bundleRequests rs w)))
       \<le> length (filter isReadTemplates (calls w)) + (if loadTemplatesOnce w then 0 else 1)"
proof (intro conjI impI)
  assume a: "\<not> loadTemplatesOnce w \<and> ReadTemplates env1 (bundleFilename env1) = (ts, None) \<and> ts \<noteq> []"
  let ?w1 = "snd (reconcileTemplatesFuncs env1 request1 w)"
  have w1: "?w1 = w\<lparr>loadTemplatesOnce := True,
                    calls := calls w @ [CallReadTemplates (bundleFilename env1)],
                    templatesBundle := map (setNamespace (CommonTemplates_Namespace request1)) ts\<rparr>"
    using a by (simp add: reconcileTemplatesFuncs_def Once_Do_def loadTemplates_def bundleFilename_def Let_def)
  have "reconcileTemplatesFuncs env2 request2 ?w1
          = (Return (map (reconcileTemplate env2) [0..<length (templatesBundle ?w1)]),
             ?w1\<lparr>templatesBundle := map (setNamespace (CommonTemplates_Namespace request2)) (templatesBundle ?w1)\<rparr>)"
    by (rule reconcileTemplatesFuncs_loaded) (rule reconcileTemplatesFuncs_once)
  moreover have "map (setNamespace (CommonTemplates_Namespace request2)) (templatesBundle ?w1)
                   = map (setNamespace (CommonTemplates_Namespace request2)) ts"
    by (simp add: w1 setNamespace_def)
  moreover have "length (templatesBundle ?w1) = length ts"
    by (simp add: w1)
  ultimately show "let w1 = ?w1 in
           calls w1 = calls w @ [CallReadTemplates (bundleFilename env1)]
           \<and> reconcileTemplatesFuncs env2 request2 w1
               = (Return (map (reconcileTemplate env2) [0..<length ts]),
                  w1\<lparr>templatesBundle := map (setNamespace (CommonTemplates_Namespace request2)) ts\<rparr>)"
    using w1 by (simp add: Let_def)
next
  show "length (filter isReadTemplates (calls (bundleRequests rs w)))
       \<le> length (filter isReadTemplates (calls w)) + (if loadTemplatesOnce w then 0 else 1)"
    by (rule bundleRequests_reads)
qed

theorem bundle_loaded_once_witness:
  "(let w1 = snd (reconcileTemplatesFuncs exampleEnv exampleRequest emptyWorld) in
      calls w1 = [CallReadTemplates ''data/common-templates-v2.yaml'']
      \<and> reconcileTemplatesFuncs (exampleEnv\<lparr>Version := ''v3'', ReadTemplates := unreadable\<rparr>)
           \<lparr>CommonTemplates_Namespace = ''c''\<rparr> w1
          = (Return (map (reconcileTemplate (exampleEnv\<lparr>Version := ''v3'', ReadTemplates := unreadable\<rparr>))
                       [0..<length exampleBundle]),
             w1\<lparr>templatesBundle := map (setNamespace ''c'') exampleBundle\<rparr>))
   \<and> length (filter isReadTemplates (calls (bundleRequests
         [(exampleEnv, exampleRequest),
          (exampleEnv\<lparr>Version := ''v3'', ReadTemplates := unreadable\<rparr>, exampleRequest),
          (exampleEnv, exampleRequest)] emptyWorld))) \<le> 1"
  using bundle_loaded_once [of emptyWorld exampleEnv exampleBundle exampleRequest
      "exampleEnv\<lparr>Version := ''v3'', ReadTemplates := unreadable\<rparr>" "\<lparr>CommonTemplates_Namespace = ''c''\<rparr>"
      "[(exampleEnv, exampleRequest),
        (exampleEnv\<lparr>Version := ''v3'', ReadTemplates := unreadable\<rparr>, exampleRequest),
        (exampleEnv, exampleRequest)]"]
  by (simp add: bundleFilename_def filepath_Join_def exampleEnv_def emptyWorld_def exampleBundle_def Let_def)

text \<open>
  C8. On the first load, a reader that fails or that yields no template makes
  \<^verbatim>\<open>reconcileTemplatesFuncs\<close> panic, with the read error or with the "no templates"
  message. Reconcile, having built the selector and listed the older templates,
  panics likewise: it returns neither statuses nor an error, it has read the bundle
  once (one list call and one read call are all it logged), and it ran no operation,
  so the store is as it was.
\<close>

theorem bundle_load_fatal:
  assumes "\<not> loadTemplatesOnce w"
    and "snd (ReadTemplates env (bundleFilename env)) \<noteq> None \<or> fst (ReadTemplates env (bundleFilename env)) = []"
  shows "fst (reconcileTemplatesFuncs env request w)
           = Panic (case snd (ReadTemplates env (bundleFilename env)) of
                      Some err \<Rightarrow> PanicError err
                    | None \<Rightarrow> PanicMessage ''No templates could be found in the installed bundle'')
         \<and> (templatesSelector env = Return sel \<and> (list_fault w = None \<or> list_fault w = Some NotFound)
            \<longrightarrow> fst (Reconcile env request w)
                  = Panic (case snd (ReadTemplates env (bundleFilename env)) of
                             Some err \<Rightarrow> PanicError err
                           | None \<Rightarrow> PanicMessage ''No templates could be found in the installed bundle'')
                \<and> store (snd (Reconcile env request w)) = store w
                \<and> calls (snd (Reconcile env request w))
                    = calls w @ [CallList (CommonTemplates_Namespace request),
                                 CallReadTemplates (bundleFilename env)])"
proof (intro conjI impI)
  show p: "fst (reconcileTemplatesFuncs env request w)
           = Panic (case snd (ReadTemplates env (bundleFilename env)) of
                      Some err \<Rightarrow> PanicError err
                    | None \<Rightarrow> PanicMessage ''No templates could be found in the installed bundle'')"
    using assms
    by (auto simp: reconcileTemplatesFuncs_def Once_Do_def loadTemplates_def bundleFilename_def Let_def
        split: option.splits)
  assume a: "templatesSelector env = Return sel \<and> (list_fault w = None \<or> list_fault w = Some NotFound)"
  obtain fs w1 where o: "reconcileOlderTemplates env request w = (Return (fs, None), w1)"
    and w1: "w1 = w\<lparr>calls := calls w @ [CallList (CommonTemplates_Namespace request)]\<rparr>"
    using a
    by (auto simp: reconcileOlderTemplates_def client_List_def IsNotFound_def Let_def)
  have nl: "\<not> loadTemplatesOnce w1" using assms w1 by simp
  have t: "reconcileTemplatesFuncs env request w1
             = (Panic (case snd (ReadTemplates env (bundleFilename env)) of
                      Some err \<Rightarrow> PanicError err
                    | None \<Rightarrow> PanicMessage ''No templates could be found in the installed bundle''),
                w1\<lparr>loadTemplatesOnce := True, calls := calls w1 @ [CallReadTemplates (bundleFilename env)],
                   templatesBundle := fst (ReadTemplates env (bundleFilename env))\<rparr>)"
    using assms nl
    by (auto simp: reconcileTemplatesFuncs_def Once_Do_def loadTemplates_def bundleFilename_def Let_def
        split: option.splits)
  have R: "Reconcile env request w
             = (Panic (case snd (ReadTemplates env (bundleFilename env)) of
                      Some err \<Rightarrow> PanicError err
                    | None \<Rightarrow> PanicMessage ''No templates could be found in the installed bundle''),
                w1\<lparr>loadTemplatesOnce := True, calls := calls w1 @ [CallReadTemplates (bundleFilename env)],
                   templatesBundle := fst (ReadTemplates env (bundleFilename env))\<rparr>)"
    by (simp add: Reconcile_def o t)
  show "fst (Reconcile env request w)
                  = Panic (case snd (ReadTemplates env (bundleFilename env)) of
                             Some err \<Rightarrow> PanicError err
                           | None \<Rightarrow> PanicMessage ''No templates could be found in the installed bundle'')"
    using R by simp
  show "store (snd (Reconcile env request w)) = store w" using R w1 by simp
  show "calls (snd (Reconcile env request w))
                    = calls w @ [CallList (CommonTemplates_Namespace request),
                                 CallReadTemplates (bundleFilename env)]"
    using R w1 by simp
qed

theorem bundle_load_fatal_witness:
  "fst (Reconcile (exampleEnv\<lparr>ReadTemplates := unreadable\<rparr>) exampleRequest emptyWorld)
     = Panic (PanicError (Failure ''unreadable''))
   \<and> fst (Reconcile (exampleEnv\<lparr>ReadTemplates := noTemplates\<rparr>) exampleRequest emptyWorld)
     = Panic (PanicMessage ''No templates could be found in the installed bundle'')
   \<and> calls (snd (Reconcile (exampleEnv\<lparr>ReadTemplates := noTemplates\<rparr>) exampleRequest emptyWorld))
     = [CallList ''b'', CallReadTemplates ''data/common-templates-v2.yaml'']"
proof -
  have s: "templatesSelector (exampleEnv\<lparr>ReadTemplates := unreadable\<rparr>) =
             Return [Requirement ''type'' Equals [''base''], Requirement ''version'' NotEquals [''v2'']]"
      "templatesSelector (exampleEnv\<lparr>ReadTemplates := noTemplates\<rparr>) =
             Return [Requirement ''type'' Equals [''base''], Requirement ''version'' NotEquals [''v2'']]"
    by (simp_all add: templatesSelector_def NewRequirement_def exampleEnv_def)
  have h1: "\<not> loadTemplatesOnce emptyWorld"
    by (simp add: emptyWorld_def)
  have h2: "snd (ReadTemplates (exampleEnv\<lparr>ReadTemplates := unreadable\<rparr>)
                 (bundleFilename (exampleEnv\<lparr>ReadTemplates := unreadable\<rparr>))) \<noteq> None
            \<or> fst (ReadTemplates (exampleEnv\<lparr>ReadTemplates := unreadable\<rparr>)
                 (bundleFilename (exampleEnv\<lparr>ReadTemplates := unreadable\<rparr>))) = []"
    by (simp add: unreadable_def)
  have h3: "snd (ReadTemplates (exampleEnv\<lparr>ReadTemplates := noTemplates\<rparr>)
                 (bundleFilename (exampleEnv\<lparr>ReadTemplates := noTemplates\<rparr>))) \<noteq> None
            \<or> fst (ReadTemplates (exampleEnv\<lparr>ReadTemplates := noTemplates\<rparr>)
                 (bundleFilename (exampleEnv\<lparr>ReadTemplates := noTemplates\<rparr>))) = []"
    by (simp add: noTemplates_def)
  from bundle_load_fatal [OF h1 h2, of exampleRequest] bundle_load_fatal [OF h1 h3, of exampleRequest] s
  show ?thesis
    by (simp add: unreadable_def noTemplates_def emptyWorld_def exampleRequest_def bundleFilename_def
        filepath_Join_def exampleEnv_def)
qed

text \<open>
  C9, as stated, fails: with the bundle loaded in namespace "a" and a request for
  namespace "b", both building the per-template operations and running Cleanup change
  the cached bundle objects.
\<close>

theorem bundle_unchanged_counterexample:
  "loadTemplatesOnce cleanupWorld
   \<and> templatesBundle (snd (reconcileTemplatesFuncs exampleEnv exampleRequest cleanupWorld))
       \<noteq> templatesBundle cleanupWorld
   \<and> templatesBundle (snd (Cleanup exampleEnv exampleRequest cleanupWorld))
       \<noteq> templatesBundle cleanupWorld"
  by (simp add: reconcileTemplatesFuncs_def Once_Do_def Cleanup_def Cleanup_objects_def
      cleanupWorld_def example_defs setNamespace_def client_Delete_def)

text \<open>
  C9, amended. Once the bundle is loaded, building the per-template operations changes
  nothing in the world but the cached objects, and each of them only in its
  \<open>Namespace\<close> field, which is overwritten with the namespace of the request; Cleanup
  does the same to the cached objects and does not touch the once-guard.
\<close>

theorem bundle_namespace_overwritten:
  "(loadTemplatesOnce w \<longrightarrow>
      snd (reconcileTemplatesFuncs env request w)
        = w\<lparr>templatesBundle :=
              map (\<lambda>t. t\<lparr>Namespace := CommonTemplates_Namespace request\<rparr>) (templatesBundle w)\<rparr>)
   \<and> templatesBundle (snd (Cleanup env request w))
       = map (\<lambda>t. t\<lparr>Namespace := CommonTemplates_Namespace request\<rparr>) (templatesBundle w)
   \<and> loadTemplatesOnce (snd (Cleanup env request w)) = loadTemplatesOnce w"
proof -
  have d: "\<And>objs w. templatesBundle (snd (deleteObjects objs w)) = templatesBundle w
                    \<and> loadTemplatesOnce (snd (deleteObjects objs w)) = loadTemplatesOnce w"
  proof -
    fix objs w
    show "templatesBundle (snd (deleteObjects objs w)) = templatesBundle w
                    \<and> loadTemplatesOnce (snd (deleteObjects objs w)) = loadTemplatesOnce w"
    proof (induction objs arbitrary: w)
      case Nil
      then show ?case by simp
    next
      case (Cons obj objs)
      obtain r w' where c: "client_Delete obj w = (r, w')" by (cases "client_Delete obj w")
      from client_Delete_frame [OF c] Cons.IH [of w'] c
      show ?case by (auto split: option.splits)
    qed
  qed
  have s: "setNamespace (CommonTemplates_Namespace request) = (\<lambda>t. t\<lparr>Namespace := CommonTemplates_Namespace request\<rparr>)"
    by (rule ext) (simp add: setNamespace_def)
  show ?thesis
    using d by (simp add: reconcileTemplatesFuncs_loaded Cleanup_def s)
qed

theorem bundle_namespace_overwritten_witness:
  "templatesBundle (snd (reconcileTemplatesFuncs exampleEnv exampleRequest cleanupWorld))
     = [(emptyObject KTemplate ''b'' ''fedora'')\<lparr>Objects := [''vm'']\<rparr>]
   \<and> templatesBundle (snd (Cleanup exampleEnv exampleRequest cleanupWorld))
     = [(emptyObject KTemplate ''b'' ''fedora'')\<lparr>Objects := [''vm'']\<rparr>]"
  using bundle_namespace_overwritten [of cleanupWorld exampleEnv exampleRequest]
  by (simp add: cleanupWorld_def example_defs)

subsection \<open>The create-or-update engine\<close>

text \<open>
  The two paths of the engine, when the get and the write succeed: an object that is
  not stored is created from the desired one with the managed labels; a stored one is
  merged in memory and written back only if the merge changed it.
\<close>

lemma key_of_applyLabels [simp]: "key_of (applyLabels managed obj) = key_of obj"
  by (simp add: key_of_def applyLabels_def)

lemma map_add_twice: "(f ++ g) ++ g = f ++ g"
  by (rule ext) (simp add: map_add_def split: option.splits)

lemma applyLabels_twice [simp]: "applyLabels managed (applyLabels managed obj) = applyLabels managed obj"
  by (simp add: applyLabels_def map_add_twice)










lemma key_of_copyField [simp]: "key_of (copyField fld newRes foundRes) = key_of foundRes"
  by (cases fld) (simp_all add: key_of_def)

lemma key_of_copyFields [simp]: "key_of (copyFields fs newRes foundRes) = key_of foundRes"
  by (induction fs arbitrary: foundRes) simp_all

lemma noUpdateFunc_copies: "noUpdateFunc = copyFields []"
  by (intro ext) (simp add: noUpdateFunc_def)

lemma roleUpdateFunc_copies: "roleUpdateFunc = copyFields [FRules]"
  by (intro ext) (simp add: roleUpdateFunc_def)

lemma roleBindingUpdateFunc_copies: "roleBindingUpdateFunc = copyFields [FSubjects, FRoleRef]"
  by (intro ext) (simp add: roleBindingUpdateFunc_def)





text \<open>
  The update function of the older templates, and what the engine makes of a found
  older template: the labels with a reserved prefix go, the managed labels are there,
  name and annotations are those of the found object.
\<close>

lemma key_of_deprecate [simp]: "key_of (deprecate env t) = key_of t"
  by (simp add: key_of_def deprecate_def)

lemma key_of_olderTemplateUpdateFunc [simp]:
  "key_of (olderTemplateUpdateFunc env newRes foundRes) = key_of foundRes"
  by (simp add: key_of_def olderTemplateUpdateFunc_def)

lemma key_of_migrated [simp]: "key_of (migrated env obj) = key_of obj"
  by (simp add: migrated_def)

lemma Name_migrated [simp]: "Name (migrated env obj) = Name obj"
  by (simp add: migrated_def applyLabels_def olderTemplateUpdateFunc_def)


lemma Annotations_olderTemplate [simp]:
  "Annotations (olderTemplateUpdateFunc env desired (applyLabels managed existing)) = Annotations existing"
  by (simp add: applyLabels_def olderTemplateUpdateFunc_def)


lemma Annotations_migrated [simp]: "Annotations (migrated env obj) = Annotations obj"
  by (simp add: migrated_def)






subsection \<open>Running the migration plan\<close>




















end
